theory Spec2Isabelle
  imports Complex_Main
begin

section \<open>Python numbers\<close>

text \<open>
  The handlers of \<^verbatim>\<open>main.py\<close> compute with Python floats, which are IEEE-754 binary64
  numbers. A finite float \<open>Finite s m e\<close> stands for \<open>(-1)^s * m * 2^e\<close>; in canonical form
  \<open>m < 2^53\<close>, \<open>-1074 \<le> e \<le> 971\<close>, and \<open>2^52 \<le> m\<close> unless \<open>e = -1074\<close> (subnormals and
  the two zeros).
\<close>

datatype pyfloat = Finite bool nat int | Infinite bool | NaN

datatype exn = TypeError | ValueError | OverflowError | StoreError

text \<open>The number of binary digits of a natural number.\<close>

fun bitlen :: "nat \<Rightarrow> nat" where
  "bitlen n = (if n = 0 then 0 else Suc (bitlen (n div 2)))"

declare bitlen.simps [simp del]

text \<open>\<open>n / d\<close> rounded to the nearest integer, ties to the even one.\<close>

definition round_half_even :: "nat \<Rightarrow> nat \<Rightarrow> nat" where
  "round_half_even n d =
     (let q = n div d; r = n mod d
      in if 2 * r < d then q
         else if d < 2 * r then q + 1
         else if even q then q else q + 1)"

text \<open>The fraction \<open>(n / d) / 2^e\<close>, as numerator and denominator.\<close>

definition scale2 :: "nat \<Rightarrow> nat \<Rightarrow> int \<Rightarrow> nat \<times> nat" where
  "scale2 n d e = (if 0 \<le> e then (n, d * 2 ^ nat e) else (n * 2 ^ nat (- e), d))"

text \<open>
  The binary64 number nearest to \<open>(-1)^s * n / d\<close> (round to nearest, ties to even), an
  infinity when the rounded value is \<open>2^1024\<close> or more.
\<close>

definition to_double :: "bool \<Rightarrow> nat \<Rightarrow> nat \<Rightarrow> pyfloat" where
  "to_double s n d =
     (if n = 0 then Finite s 0 (- 1074)
      else
        let k = int (bitlen n) - int (bitlen d);
            (n1, d1) = scale2 n d k;
            l = (if d1 \<le> n1 then k else k - 1);
            e = max (l - 52) (- 1074);
            (n2, d2) = scale2 n d e;
            m = round_half_even n2 d2;
            (m', e') = (if m = 2 ^ 53 then (2 ^ 52, e + 1) else (m, e))
        in if 971 < e' then Infinite s else Finite s m' e')"

text \<open>The float nearest to \<open>(-1)^s * m * 2^e\<close>.\<close>

definition dyadic :: "bool \<Rightarrow> nat \<Rightarrow> int \<Rightarrow> pyfloat" where
  "dyadic s m e = (let (n, d) = scale2 m 1 (- e) in to_double s n d)"

definition float_zero :: pyfloat where
  "float_zero = Finite False 0 (- 1074)"

text \<open>
  \<^verbatim>\<open>float(n)\<close> for a Python int, also the conversion of the int operand of
  \<^verbatim>\<open>n * x\<close>: an int that rounds to \<open>2^1024\<close> or more raises \<^verbatim>\<open>OverflowError\<close>.
\<close>

definition float_of_int :: "int \<Rightarrow> exn + pyfloat" where
  "float_of_int n =
     (case to_double (n < 0) (nat \<bar>n\<bar>) 1 of
        Infinite s \<Rightarrow> Inl OverflowError
      | f \<Rightarrow> Inr f)"

fun float_mul :: "pyfloat \<Rightarrow> pyfloat \<Rightarrow> pyfloat" where
  "float_mul NaN y = NaN"
| "float_mul (Infinite s) NaN = NaN"
| "float_mul (Finite s m e) NaN = NaN"
| "float_mul (Infinite s) (Infinite t) = Infinite (s \<noteq> t)"
| "float_mul (Infinite s) (Finite t n f) = (if n = 0 then NaN else Infinite (s \<noteq> t))"
| "float_mul (Finite s m e) (Infinite t) = (if m = 0 then NaN else Infinite (s \<noteq> t))"
| "float_mul (Finite s m e) (Finite t n f) = dyadic (s \<noteq> t) (m * n) (e + f)"

definition signed :: "bool \<Rightarrow> nat \<Rightarrow> int" where
  "signed s m = (if s then - int m else int m)"

fun float_add :: "pyfloat \<Rightarrow> pyfloat \<Rightarrow> pyfloat" where
  "float_add NaN y = NaN"
| "float_add (Infinite s) NaN = NaN"
| "float_add (Finite s m e) NaN = NaN"
| "float_add (Infinite s) (Infinite t) = (if s = t then Infinite s else NaN)"
| "float_add (Infinite s) (Finite t n f) = Infinite s"
| "float_add (Finite s m e) (Infinite t) = Infinite t"
| "float_add (Finite s m e) (Finite t n f) =
     (let e0 = min e f;
          v = signed s (m * 2 ^ nat (e - e0)) + signed t (n * 2 ^ nat (f - e0))
      in if v = 0 then Finite (s \<and> t) 0 (- 1074)
         else dyadic (v < 0) (nat \<bar>v\<bar>) e0)"

text \<open>The comparisons \<^verbatim>\<open>x < 0\<close> and \<^verbatim>\<open>x >= 0\<close> of a float with the int zero.\<close>

fun float_lt_zero :: "pyfloat \<Rightarrow> bool" where
  "float_lt_zero (Finite s m e) = (s \<and> 0 < m)"
| "float_lt_zero (Infinite s) = s"
| "float_lt_zero NaN = False"

fun float_ge_zero :: "pyfloat \<Rightarrow> bool" where
  "float_ge_zero (Finite s m e) = (if s then m = 0 else True)"
| "float_ge_zero (Infinite s) = (\<not> s)"
| "float_ge_zero NaN = False"

text \<open>
  \<^verbatim>\<open>int(x)\<close> for a float: the fraction is cut off; an infinity raises
  \<^verbatim>\<open>OverflowError\<close>, a NaN \<^verbatim>\<open>ValueError\<close>.
\<close>

fun float_trunc :: "pyfloat \<Rightarrow> exn + int" where
  "float_trunc (Finite s m e) =
     Inr (signed s (if 0 \<le> e then m * 2 ^ nat e else m div 2 ^ nat (- e)))"
| "float_trunc (Infinite s) = Inl OverflowError"
| "float_trunc NaN = Inl ValueError"

text \<open>
  \<^verbatim>\<open>round(x, ndigits)\<close> for a float and \<open>ndigits \<ge> 0\<close>: the exact value of \<open>x\<close> is rounded
  to \<open>ndigits\<close> decimal places, ties to even, and the decimal is read back as the nearest
  float. Infinities and NaN round to themselves, and so does every float when
  \<open>ndigits\<close> is beyond 323.
\<close>

fun py_round :: "pyfloat \<Rightarrow> nat \<Rightarrow> pyfloat" where
  "py_round (Finite s m e) ndigits =
     (if 323 < ndigits then Finite s m e
      else
        let (n, d) = scale2 (m * 10 ^ ndigits) 1 (- e)
        in to_double s (round_half_even n d) (10 ^ ndigits))"
| "py_round (Infinite s) ndigits = Infinite s"
| "py_round NaN ndigits = NaN"


section \<open>Python values\<close>

text \<open>
  The values a request body and a stored document hold: what JSON decodes to, and the
  identifiers and timestamps the document store assigns. A dict is an association list
  in insertion order.
\<close>

datatype pyval =
    PyNone
  | PyBool bool
  | PyInt int
  | PyFloat pyfloat
  | PyStr string
  | PyList "pyval list"
  | PyDict "(string \<times> pyval) list"
  | ObjectId nat
  | DateTime nat

type_synonym document = "(string \<times> pyval) list"

text \<open>
  The parts of the Python runtime the handlers call and this theory does not define:
  \<^verbatim>\<open>int(s)\<close> and \<^verbatim>\<open>float(s)\<close> for a text \<open>s\<close> (\<open>None\<close> when they raise
  \<^verbatim>\<open>ValueError\<close>); the interpreter's limit on the decimal digits of an int that is
  converted to a text, \<^verbatim>\<open>sys.get_int_max_str_digits()\<close>, which is 4300 unless it is
  configured otherwise and 0 where there is no limit; \<^verbatim>\<open>str(v)\<close> for a float, an
  identifier or a timestamp, which raises nothing; and \<^verbatim>\<open>str(v)\<close> for a list or a
  dict, which raises what the conversion of a value inside it raises. Every function
  below takes the runtime as its first argument, and every theorem holds for all
  runtimes.
\<close>

record runtime =
  int_of_str :: "string \<Rightarrow> int option"
  float_of_str :: "string \<Rightarrow> pyfloat option"
  int_max_str_digits :: nat
  repr_of :: "pyval \<Rightarrow> string"
  str_of_container :: "pyval \<Rightarrow> exn + string"

text \<open>\<^verbatim>\<open>int(v)\<close>.\<close>

fun py_int :: "runtime \<Rightarrow> pyval \<Rightarrow> exn + int" where
  "py_int rt (PyInt n) = Inr n"
| "py_int rt (PyBool b) = Inr (if b then 1 else 0)"
| "py_int rt (PyFloat x) = float_trunc x"
| "py_int rt (PyStr s) = (case int_of_str rt s of None \<Rightarrow> Inl ValueError | Some n \<Rightarrow> Inr n)"
| "py_int rt v = Inl TypeError"

text \<open>\<^verbatim>\<open>float(v)\<close>.\<close>

fun py_float :: "runtime \<Rightarrow> pyval \<Rightarrow> exn + pyfloat" where
  "py_float rt (PyFloat x) = Inr x"
| "py_float rt (PyInt n) = float_of_int n"
| "py_float rt (PyBool b) = float_of_int (if b then 1 else 0)"
| "py_float rt (PyStr s) =
     (case float_of_str rt s of None \<Rightarrow> Inl ValueError | Some x \<Rightarrow> Inr x)"
| "py_float rt v = Inl TypeError"

text \<open>The truth value of \<open>v\<close>, as \<^verbatim>\<open>v or d\<close> tests it.\<close>

fun truthy :: "pyval \<Rightarrow> bool" where
  "truthy PyNone = False"
| "truthy (PyBool b) = b"
| "truthy (PyInt n) = (n \<noteq> 0)"
| "truthy (PyFloat (Finite s m e)) = (m \<noteq> 0)"
| "truthy (PyFloat x) = True"
| "truthy (PyStr s) = (s \<noteq> [])"
| "truthy (PyList xs) = (xs \<noteq> [])"
| "truthy (PyDict kvs) = (kvs \<noteq> [])"
| "truthy v = True"

definition py_or :: "pyval \<Rightarrow> pyval \<Rightarrow> pyval" where
  "py_or v d = (if truthy v then v else d)"

text \<open>The decimal digits of a natural number, and \<^verbatim>\<open>str(n)\<close> for an int.\<close>

fun show_nat :: "nat \<Rightarrow> string" where
  "show_nat n =
     (if n < 10 then [''0123456789'' ! n]
      else show_nat (n div 10) @ [''0123456789'' ! (n mod 10)])"

declare show_nat.simps [simp del]

definition show_int :: "int \<Rightarrow> string" where
  "show_int n = (if n < 0 then CHR ''-'' # show_nat (nat (- n)) else show_nat (nat n))"

text \<open>
  \<^verbatim>\<open>str(v)\<close>. For an int it raises \<^verbatim>\<open>ValueError\<close> when there is a limit \<open>k\<close> on the
  digits and the int has more than \<open>k\<close> decimal digits, which is to say that its absolute
  value is \<open>10^k\<close> or more.
\<close>

fun py_str :: "runtime \<Rightarrow> pyval \<Rightarrow> exn + string" where
  "py_str rt (PyStr s) = Inr s"
| "py_str rt PyNone = Inr ''None''"
| "py_str rt (PyBool b) = Inr (if b then ''True'' else ''False'')"
| "py_str rt (PyInt n) =
     (if 0 < int_max_str_digits rt \<and> 10 ^ int_max_str_digits rt \<le> \<bar>n\<bar> then Inl ValueError
      else Inr (show_int n))"
| "py_str rt (PyList xs) = str_of_container rt (PyList xs)"
| "py_str rt (PyDict kvs) = str_of_container rt (PyDict kvs)"
| "py_str rt v = Inr (repr_of rt v)"

text \<open>
  Dict operations: \<^verbatim>\<open>k in d\<close> and \<^verbatim>\<open>d.get(k)\<close> (\<open>None\<close> for a missing key),
  \<^verbatim>\<open>d.get(k, default)\<close>, \<^verbatim>\<open>d[k] = v\<close> and \<^verbatim>\<open>d.pop(k)\<close>.
\<close>

definition dict_get :: "document \<Rightarrow> string \<Rightarrow> pyval option" where
  "dict_get d k = map_of d k"

definition dict_get_or :: "document \<Rightarrow> string \<Rightarrow> pyval \<Rightarrow> pyval" where
  "dict_get_or d k dflt = (case dict_get d k of None \<Rightarrow> dflt | Some v \<Rightarrow> v)"

fun dict_set :: "document \<Rightarrow> string \<Rightarrow> pyval \<Rightarrow> document" where
  "dict_set [] k v = [(k, v)]"
| "dict_set ((k', v') # d) k v = (if k' = k then (k, v) # d else (k', v') # dict_set d k v)"

definition dict_pop :: "document \<Rightarrow> string \<Rightarrow> document" where
  "dict_pop d k = filter (\<lambda>kv. fst kv \<noteq> k) d"

section \<open>The document store\<close>

text \<open>
  Modelled from the spec: the module \<^verbatim>\<open>database\<close> (\<^verbatim>\<open>db\<close>, \<^verbatim>\<open>create_document\<close>,
  \<^verbatim>\<open>get_documents\<close>) is not among the sources. The spec gives the store as named
  collections of independent documents with the interface
  \<^verbatim>\<open>count(collection, filter)\<close>, \<^verbatim>\<open>insert(collection, document) -> id\<close> and
  \<^verbatim>\<open>find(collection, filter, projection)\<close>; a read returns the documents in insertion
  order; on insertion the store assigns a creation timestamp and an opaque identifier,
  and an insertion can fail. Which insertions fail is the store's own matter:
  \<open>accepts s c d\<close> tells whether inserting \<open>d\<close> into collection \<open>c\<close> succeeds.
\<close>

record store =
  colls :: "string \<Rightarrow> document list"
  next_id :: nat
  now :: nat
  accepts :: "string \<Rightarrow> document \<Rightarrow> bool"

definition count_documents :: "store \<Rightarrow> string \<Rightarrow> nat" where
  "count_documents s c = length (colls s c)"

definition get_documents :: "store \<Rightarrow> string \<Rightarrow> document list" where
  "get_documents s c = colls s c"

definition create_document :: "store \<Rightarrow> string \<Rightarrow> document \<Rightarrow> exn + (pyval \<times> store)" where
  "create_document s c d =
     (if accepts s c d then
        let doc = dict_set (dict_set d ''created_at'' (DateTime (now s)))
                    ''_id'' (ObjectId (next_id s))
        in Inr (ObjectId (next_id s),
                s\<lparr>colls := (colls s)(c := colls s c @ [doc]), next_id := Suc (next_id s)\<rparr>)
      else Inl StoreError)"

section \<open>The handlers of main.py\<close>

text \<open>
  What a handler raises: an \<^verbatim>\<open>HTTPException\<close> with its status code and detail, or
  an exception nothing catches.
\<close>

datatype error = HTTPException nat string | Uncaught exn

record CreateOrderRequest =
  items :: "document list"
  buyer_email :: "string option"
  buyer_username :: "string option"
  order_note :: "string option"

definition DEFAULT_PRODUCTS :: "document list" where
  "DEFAULT_PRODUCTS =
     [[(''title'', PyStr ''VIP Rank''),
       (''description'', PyStr ''Purple tag, daily crate, /fly, and more perks.''),
       (''price'', PyFloat (to_double False 999 100)),
       (''category'', PyStr ''ranks''),
       (''in_stock'', PyBool True),
       (''sku'', PyStr ''RANK_VIP''),
       (''image'', PyStr ''https://i.imgur.com/7gW5a8W.png''),
       (''badge'', PyStr ''Popular'')],
      [(''title'', PyStr ''MVP Rank''),
       (''description'', PyStr ''All VIP perks plus extra kits and boosters.''),
       (''price'', PyFloat (to_double False 1999 100)),
       (''category'', PyStr ''ranks''),
       (''in_stock'', PyBool True),
       (''sku'', PyStr ''RANK_MVP''),
       (''image'', PyStr ''https://i.imgur.com/3wM3q6B.png''),
       (''badge'', PyStr ''Best Value'')],
      [(''title'', PyStr ''Legend Rank''),
       (''description'', PyStr ''Ultimate status, cosmetics, and exclusive features.''),
       (''price'', PyFloat (to_double False 3999 100)),
       (''category'', PyStr ''ranks''),
       (''in_stock'', PyBool True),
       (''sku'', PyStr ''RANK_LEGEND''),
       (''image'', PyStr ''https://i.imgur.com/8F9mTnE.png''),
       (''badge'', PyStr ''Premium'')],
      [(''title'', PyStr ''Keys Bundle''),
       (''description'', PyStr ''10x Galaxy Crate Keys.''),
       (''price'', PyFloat (to_double False 799 100)),
       (''category'', PyStr ''keys''),
       (''in_stock'', PyBool True),
       (''sku'', PyStr ''KEYS_GALAXY_10''),
       (''image'', PyStr ''https://i.imgur.com/0kCqf3L.png''),
       (''badge'', PyNone)]]"

definition COLLECTION_PRODUCTS :: string where
  "COLLECTION_PRODUCTS = ''product''"

definition COLLECTION_ORDERS :: string where
  "COLLECTION_ORDERS = ''order''"

subsection \<open>get_products\<close>

text \<open>The seeding loop: an insertion that raises is passed over.\<close>

fun seed_products :: "store \<Rightarrow> document list \<Rightarrow> store" where
  "seed_products s [] = s"
| "seed_products s (p # ps) =
     (case create_document s COLLECTION_PRODUCTS p of
        Inl e \<Rightarrow> seed_products s ps
      | Inr (i, s') \<Rightarrow> seed_products s' ps)"

text \<open>
  The body of the loop that converts identifiers and timestamps to texts, and the loop.
  No \<^verbatim>\<open>try\<close> block surrounds them: what \<^verbatim>\<open>str\<close> raises ends the request.
  \<open>str_field rt p k\<close> is \<^verbatim>\<open>if k in p: p[k] = str(p[k])\<close>.
\<close>

definition str_field :: "runtime \<Rightarrow> document \<Rightarrow> string \<Rightarrow> exn + document" where
  "str_field rt p k =
     (case dict_get p k of
        None \<Rightarrow> Inr p
      | Some v \<Rightarrow> (case py_str rt v of Inl e \<Rightarrow> Inl e | Inr t \<Rightarrow> Inr (dict_set p k (PyStr t))))"

definition public_product :: "runtime \<Rightarrow> document \<Rightarrow> exn + document" where
  "public_product rt p =
     (case (case dict_get p ''_id'' of
              None \<Rightarrow> Inr p
            | Some v \<Rightarrow>
                (case py_str rt v of
                   Inl e \<Rightarrow> Inl e
                 | Inr t \<Rightarrow> Inr (dict_set (dict_pop p ''_id'') ''id'' (PyStr t)))) of
        Inl e \<Rightarrow> Inl e
      | Inr p1 \<Rightarrow>
          (case str_field rt p1 ''created_at'' of
             Inl e \<Rightarrow> Inl e
           | Inr p2 \<Rightarrow> str_field rt p2 ''updated_at''))"

fun public_products :: "runtime \<Rightarrow> document list \<Rightarrow> exn + document list" where
  "public_products rt [] = Inr []"
| "public_products rt (p # ps) =
     (case public_product rt p of
        Inl e \<Rightarrow> Inl e
      | Inr q \<Rightarrow> (case public_products rt ps of Inl e \<Rightarrow> Inl e | Inr qs \<Rightarrow> Inr (q # qs)))"

text \<open>
  The handler takes the global \<^verbatim>\<open>db\<close> (\<open>None\<close> when no store is configured) and
  returns its response or error together with the store it leaves.
\<close>

definition get_products :: "runtime \<Rightarrow> store option \<Rightarrow> (error + document) \<times> store option" where
  "get_products rt db =
     (case db of
        None \<Rightarrow> (Inl (HTTPException 500 ''Database not configured''), None)
      | Some s \<Rightarrow>
          let count = count_documents s COLLECTION_PRODUCTS;
              s' = (if count = 0 then seed_products s DEFAULT_PRODUCTS else s);
              products = get_documents s' COLLECTION_PRODUCTS
          in (case public_products rt products of
                Inl e \<Rightarrow> (Inl (Uncaught e), Some s')
              | Inr ps \<Rightarrow> (Inr [(''items'', PyList (map PyDict ps))], Some s')))"

subsection \<open>create_order\<close>

text \<open>\<^verbatim>\<open>qty * price\<close> for an int and a float: the int is converted first.\<close>

definition int_times_float :: "int \<Rightarrow> pyfloat \<Rightarrow> exn + pyfloat" where
  "int_times_float qty price =
     (case float_of_int qty of Inl e \<Rightarrow> Inl e | Inr q \<Rightarrow> Inr (float_mul q price))"

text \<open>
  The body of the loop over \<^verbatim>\<open>payload.items\<close>, up to the exception it may raise:
  \<open>Inl e\<close> when a statement of the \<^verbatim>\<open>try\<close> block raises, \<open>Inr None\<close> when the item is
  skipped by \<^verbatim>\<open>continue\<close>, and \<open>Inr (Some (a, doc))\<close> when \<open>a\<close> is added to the subtotal
  and \<open>doc\<close> appended to the items.
\<close>

definition line_item :: "runtime \<Rightarrow> document \<Rightarrow> exn + (pyfloat \<times> document) option" where
  "line_item rt item =
     (case py_int rt (dict_get_or item ''quantity'' (PyInt 1)) of
        Inl e \<Rightarrow> Inl e
      | Inr qty \<Rightarrow>
          (case py_float rt (dict_get_or item ''price'' PyNone) of
             Inl e \<Rightarrow> Inl e
           | Inr price \<Rightarrow>
               let title = py_or (dict_get_or item ''title'' PyNone) (PyStr ''Item'')
               in (case py_str rt (py_or (dict_get_or item ''product_id'' PyNone) (PyStr [])) of
                     Inl e \<Rightarrow> Inl e
                   | Inr product_id \<Rightarrow>
                       if qty \<le> 0 \<or> float_lt_zero price then Inr None
                       else
                         (case int_times_float qty price of
                            Inl e \<Rightarrow> Inl e
                          | Inr amount \<Rightarrow>
                              Inr (Some (amount,
                                [(''product_id'', PyStr product_id),
                                 (''quantity'', PyInt qty),
                                 (''price'', PyFloat price),
                                 (''title'', title)]))))))"

text \<open>The loop, on the pair of \<^verbatim>\<open>items\<close> and \<^verbatim>\<open>subtotal\<close>.\<close>

fun build_items ::
  "runtime \<Rightarrow> document list \<Rightarrow> document list \<times> pyfloat \<Rightarrow> document list \<times> pyfloat" where
  "build_items rt [] acc = acc"
| "build_items rt (item # rest) acc =
     (case line_item rt item of
        Inr (Some (amount, doc)) \<Rightarrow>
          build_items rt rest (fst acc @ [doc], float_add (snd acc) amount)
      | _ \<Rightarrow> build_items rt rest acc)"

text \<open>
  Modelled from the spec: the class \<^verbatim>\<open>schemas.Order\<close> is not among the sources. The
  spec gives an Order as its line items, subtotal and optional buyer email, buyer user
  name and note; it is stored as a document with these five fields.
\<close>

definition opt_str :: "string option \<Rightarrow> pyval" where
  "opt_str x = (case x of None \<Rightarrow> PyNone | Some t \<Rightarrow> PyStr t)"

definition OrderSchema ::
  "document list \<Rightarrow> pyfloat \<Rightarrow> string option \<Rightarrow> string option \<Rightarrow> string option \<Rightarrow> document" where
  "OrderSchema its st email username nt =
     [(''items'', PyList (map PyDict its)),
      (''subtotal'', PyFloat st),
      (''buyer_email'', opt_str email),
      (''buyer_username'', opt_str username),
      (''note'', opt_str nt)]"

definition create_order ::
  "runtime \<Rightarrow> store option \<Rightarrow> CreateOrderRequest \<Rightarrow> (error + document) \<times> store option" where
  "create_order rt db payload =
     (case db of
        None \<Rightarrow> (Inl (HTTPException 500 ''Database not configured''), None)
      | Some s \<Rightarrow>
          if items payload = [] then (Inl (HTTPException 400 ''No items in order''), Some s)
          else
            let (its, subtotal) = build_items rt (items payload) ([], float_zero)
            in if length its = 0 then (Inl (HTTPException 400 ''Invalid items''), Some s)
               else
                 let order_doc =
                       OrderSchema its (py_round subtotal 2) (buyer_email payload)
                         (buyer_username payload) (order_note payload)
                 in (case create_document s COLLECTION_ORDERS order_doc of
                       Inl e \<Rightarrow> (Inl (Uncaught e), Some s)
                     | Inr (order_id, s') \<Rightarrow>
                         (Inr [(''ok'', PyBool True), (''order_id'', order_id)], Some s')))"

section \<open>What the claims speak of\<close>

text \<open>The quantity and the price of a raw item, as the loop reads them.\<close>

definition quantity_of :: "runtime \<Rightarrow> document \<Rightarrow> exn + int" where
  "quantity_of rt item = py_int rt (dict_get_or item ''quantity'' (PyInt 1))"

definition price_of :: "runtime \<Rightarrow> document \<Rightarrow> exn + pyfloat" where
  "price_of rt item = py_float rt (dict_get_or item ''price'' PyNone)"

text \<open>
  The stored form of a raw item and the amount it adds to the subtotal; \<open>None\<close> for an
  item the loop drops. An item is accepted when the loop appends it.
\<close>

definition stored_item :: "runtime \<Rightarrow> document \<Rightarrow> document option" where
  "stored_item rt item =
     (case line_item rt item of Inr (Some (amount, doc)) \<Rightarrow> Some doc | _ \<Rightarrow> None)"

definition item_amount :: "runtime \<Rightarrow> document \<Rightarrow> pyfloat option" where
  "item_amount rt item =
     (case line_item rt item of Inr (Some (amount, doc)) \<Rightarrow> Some amount | _ \<Rightarrow> None)"

definition accepted :: "runtime \<Rightarrow> document \<Rightarrow> bool" where
  "accepted rt item = (stored_item rt item \<noteq> None)"

text \<open>
  The subtotal in the words of the spec: quantity times price of every item, summed in
  floating point from \<open>0.0\<close> in the order of the items. An item whose quantity or price
  does not parse has no product; \<open>NaN\<close> stands for it.
\<close>

definition quantity_times_price :: "runtime \<Rightarrow> document \<Rightarrow> pyfloat" where
  "quantity_times_price rt item =
     (case quantity_of rt item of
        Inl e \<Rightarrow> NaN
      | Inr q \<Rightarrow>
          (case price_of rt item of
             Inl e \<Rightarrow> NaN
           | Inr p \<Rightarrow> (case float_of_int q of Inl e \<Rightarrow> NaN | Inr a \<Rightarrow> float_mul a p)))"

definition float_sum :: "pyfloat list \<Rightarrow> pyfloat" where
  "float_sum xs = foldl float_add float_zero xs"

text \<open>
  A well-formed item in the words of the claim about the subtotal: an integer quantity
  above zero and a parsable price that is zero or more; and what the code asks besides,
  that the quantity converts to a float.
\<close>

definition well_formed :: "runtime \<Rightarrow> document \<Rightarrow> bool" where
  "well_formed rt item =
     (case quantity_of rt item of
        Inl e \<Rightarrow> False
      | Inr q \<Rightarrow> 0 < q \<and> (case price_of rt item of Inl e \<Rightarrow> False | Inr p \<Rightarrow> float_ge_zero p))"

definition quantity_fits :: "runtime \<Rightarrow> document \<Rightarrow> bool" where
  "quantity_fits rt item =
     (case quantity_of rt item of
        Inl e \<Rightarrow> False
      | Inr q \<Rightarrow> (case float_of_int q of Inl e \<Rightarrow> False | Inr a \<Rightarrow> True))"

text \<open>
  The text of the product_id of a raw item, as the loop reads it, and whether \<^verbatim>\<open>str\<close>
  gives it without raising.
\<close>

definition product_id_of :: "runtime \<Rightarrow> document \<Rightarrow> exn + string" where
  "product_id_of rt item = py_str rt (py_or (dict_get_or item ''product_id'' PyNone) (PyStr []))"

definition product_id_fits :: "runtime \<Rightarrow> document \<Rightarrow> bool" where
  "product_id_fits rt item = (case product_id_of rt item of Inl e \<Rightarrow> False | Inr t \<Rightarrow> True)"

text \<open>
  A malformed item in the words of the claim about rejected items: the price is absent,
  does not parse or is negative, or the quantity is present and does not parse, is zero
  or is negative.
\<close>

definition malformed :: "runtime \<Rightarrow> document \<Rightarrow> bool" where
  "malformed rt item =
     ((case dict_get item ''price'' of
         None \<Rightarrow> True
       | Some v \<Rightarrow> (case py_float rt v of Inl e \<Rightarrow> True | Inr p \<Rightarrow> float_lt_zero p))
      \<or> (case dict_get item ''quantity'' of
            None \<Rightarrow> False
          | Some v \<Rightarrow> (case py_int rt v of Inl e \<Rightarrow> True | Inr q \<Rightarrow> q \<le> 0)))"

text \<open>A stored document without the two fields the store adds on insertion.\<close>

definition without_store_fields :: "document \<Rightarrow> document" where
  "without_store_fields d = dict_pop (dict_pop d ''_id'') ''created_at''"

definition sku_of :: "document \<Rightarrow> pyval option" where
  "sku_of d = dict_get d ''sku''"

text \<open>
  A document as an insertion of a default product leaves it: with an identifier and a
  creation timestamp of the store, and no \<^verbatim>\<open>updated_at\<close> field.
\<close>

definition stamped :: "document \<Rightarrow> bool" where
  "stamped d =
     ((case dict_get d ''_id'' of Some (ObjectId n) \<Rightarrow> True | _ \<Rightarrow> False)
      \<and> (case dict_get d ''created_at'' of Some (DateTime t) \<Rightarrow> True | _ \<Rightarrow> False)
      \<and> dict_get d ''updated_at'' = None)"

section \<open>A runtime and stores to compute with\<close>

text \<open>
  The theorems hold for every runtime. To evaluate the handlers on a request, this
  runtime reads a text as a number when it is a decimal numeral with an optional minus
  sign, as Python does, and rejects every other text; its limit on the digits of an int
  is Python's default, 4300; it renders an identifier and a timestamp by their number,
  and stands for the text of a float, a list or a dict by a question mark.
\<close>

fun digits_value :: "string \<Rightarrow> nat \<Rightarrow> nat option" where
  "digits_value [] acc = Some acc"
| "digits_value (c # cs) acc =
     (let n = (of_char c :: nat)
      in if 48 \<le> n \<and> n \<le> 57 then digits_value cs (10 * acc + (n - 48)) else None)"

definition numeral_value :: "string \<Rightarrow> (bool \<times> nat) option" where
  "numeral_value s =
     (case s of
        [] \<Rightarrow> None
      | c # cs \<Rightarrow>
          if c = CHR ''-'' then (if cs = [] then None else map_option (Pair True) (digits_value cs 0))
          else map_option (Pair False) (digits_value s 0))"

definition plain_runtime :: runtime where
  "plain_runtime =
     \<lparr>int_of_str = (\<lambda>s. map_option (\<lambda>(neg, n). signed neg n) (numeral_value s)),
      float_of_str = (\<lambda>s. map_option (\<lambda>(neg, n). to_double neg n 1) (numeral_value s)),
      int_max_str_digits = 4300,
      repr_of = (\<lambda>v. case v of ObjectId n \<Rightarrow> show_nat n | DateTime t \<Rightarrow> show_nat t | _ \<Rightarrow> ''?''),
      str_of_container = (\<lambda>v. Inr ''?'')\<rparr>"

definition empty_store :: store where
  "empty_store = \<lparr>colls = (\<lambda>c. []), next_id = 0, now = 0, accepts = (\<lambda>c d. True)\<rparr>"

text \<open>A store in which inserting the product with sku \<open>RANK_MVP\<close> fails.\<close>

definition faulty_store :: store where
  "faulty_store =
     \<lparr>colls = (\<lambda>c. []), next_id = 0, now = 0,
      accepts = (\<lambda>c d. dict_get d ''sku'' \<noteq> Some (PyStr ''RANK_MVP''))\<rparr>"

definition order_request :: "document list \<Rightarrow> CreateOrderRequest" where
  "order_request its =
     \<lparr>items = its, buyer_email = None, buyer_username = None, order_note = None\<rparr>"

section \<open>Evaluation and auxiliary facts\<close>

lemma bitlen_zero: "bitlen 0 = 0"
  by (simp add: bitlen.simps)

lemma bitlen_one: "bitlen 1 = 1" "bitlen (Suc 0) = 1"
  by (simp_all add: bitlen.simps)

lemma bitlen_Bit0: "bitlen (numeral (Num.Bit0 k)) = bitlen (numeral k) + 1"
  by (subst bitlen.simps) simp

lemma bitlen_Bit1: "bitlen (numeral (Num.Bit1 k)) = bitlen (numeral k) + 1"
  by (subst bitlen.simps) simp

lemmas float_eval = to_double_def scale2_def round_half_even_def dyadic_def float_zero_def
  float_of_int_def signed_def Let_def bitlen_zero bitlen_one bitlen_Bit0 bitlen_Bit1

lemmas order_eval = create_order_def order_request_def line_item_def dict_get_or_def
  dict_get_def int_times_float_def py_or_def create_document_def empty_store_def
  OrderSchema_def opt_str_def COLLECTION_ORDERS_def

lemma ten_power_positive: "\<not> (10::int) ^ k \<le> 0"
  by (simp add: not_le)

lemma float_ge_not_lt: "float_ge_zero p \<Longrightarrow> \<not> float_lt_zero p"
  by (cases p) (auto split: if_splits)

lemma map_filter_Nil: "List.map_filter f [] = []"
  by (simp add: List.map_filter_def)

lemma map_filter_Cons:
  "List.map_filter f (x # xs) =
     (case f x of None \<Rightarrow> List.map_filter f xs | Some y \<Rightarrow> y # List.map_filter f xs)"
  by (simp add: List.map_filter_def split: option.splits)

lemma map_filter_all_None: "(\<forall>x\<in>set xs. f x = None) \<Longrightarrow> List.map_filter f xs = []"
  by (induction xs) (simp_all add: map_filter_Nil map_filter_Cons)

lemma map_filter_all_Some: "(\<forall>x\<in>set xs. f x = Some (g x)) \<Longrightarrow> List.map_filter f xs = map g xs"
  by (induction xs) (simp_all add: map_filter_Nil map_filter_Cons)


lemma build_items_step:
  "build_items rt (item # rest) acc =
     (case line_item rt item of
        Inr (Some (amount, doc)) \<Rightarrow>
          build_items rt rest (fst acc @ [doc], float_add (snd acc) amount)
      | _ \<Rightarrow> build_items rt rest acc)"
  by simp

lemma build_items_append:
  "build_items rt (xs @ ys) acc = build_items rt ys (build_items rt xs acc)"
  by (induction xs arbitrary: acc) (auto split: sum.splits option.splits prod.splits)

lemma build_items_fst:
  "fst (build_items rt xs acc) = fst acc @ List.map_filter (stored_item rt) xs"
proof (induction xs arbitrary: acc)
  case Nil
  show ?case by (simp add: map_filter_Nil)
next
  case (Cons item rest)
  show ?case
  proof (cases "line_item rt item")
    case (Inl e)
    then show ?thesis
      by (simp add: Cons.IH map_filter_Cons stored_item_def)
  next
    case (Inr r)
    show ?thesis
    proof (cases r)
      case None
      with Inr show ?thesis
        by (simp add: Cons.IH map_filter_Cons stored_item_def)
    next
      case (Some ad)
      obtain amount doc where "ad = (amount, doc)" by (cases ad)
      with Inr Some show ?thesis
        by (simp add: Cons.IH map_filter_Cons stored_item_def)
    qed
  qed
qed

lemma build_items_snd:
  "snd (build_items rt xs acc) =
     foldl float_add (snd acc) (List.map_filter (item_amount rt) xs)"
proof (induction xs arbitrary: acc)
  case Nil
  show ?case by (simp add: map_filter_Nil)
next
  case (Cons item rest)
  show ?case
  proof (cases "line_item rt item")
    case (Inl e)
    then show ?thesis
      by (simp add: Cons.IH map_filter_Cons item_amount_def)
  next
    case (Inr r)
    show ?thesis
    proof (cases r)
      case None
      with Inr show ?thesis
        by (simp add: Cons.IH map_filter_Cons item_amount_def)
    next
      case (Some ad)
      obtain amount doc where "ad = (amount, doc)" by (cases ad)
      with Inr Some show ?thesis
        by (simp add: Cons.IH map_filter_Cons item_amount_def)
    qed
  qed
qed

lemma build_items_pair:
  "build_items rt xs ([], float_zero) =
     (List.map_filter (stored_item rt) xs,
      foldl float_add float_zero (List.map_filter (item_amount rt) xs))"
  using build_items_fst [of rt xs "([], float_zero)"] build_items_snd [of rt xs "([], float_zero)"]
  by (cases "build_items rt xs ([], float_zero)") simp


lemma well_formed_line_item:
  assumes "well_formed rt item" and "quantity_fits rt item" and "product_id_fits rt item"
  shows "item_amount rt item = Some (quantity_times_price rt item) \<and> accepted rt item"
proof -
  from assms obtain q p a t where q: "quantity_of rt item = Inr q" "0 < q"
    and p: "price_of rt item = Inr p" "float_ge_zero p"
    and a: "float_of_int q = Inr a"
    and t: "product_id_of rt item = Inr t"
    by (auto simp: well_formed_def quantity_fits_def product_id_fits_def split: sum.splits)
  from p(2) have "\<not> float_lt_zero p" by (rule float_ge_not_lt)
  with q p(1) a t show ?thesis
    by (simp add: item_amount_def accepted_def stored_item_def quantity_times_price_def
        line_item_def quantity_of_def price_of_def product_id_of_def int_times_float_def Let_def)
qed

lemma malformed_line_item: "malformed rt item \<Longrightarrow> stored_item rt item = None"
  by (auto simp: malformed_def stored_item_def line_item_def dict_get_or_def Let_def
      split: sum.splits option.splits if_splits prod.splits)

lemma rejected_step:
  "stored_item rt item = None \<Longrightarrow> build_items rt (item # rest) acc = build_items rt rest acc"
  by (auto simp: stored_item_def split: sum.splits option.splits prod.splits)

lemma dict_get_dict_set:
  "dict_get (dict_set d k v) k' = (if k' = k then Some v else dict_get d k')"
  by (induction d) (auto simp: dict_get_def)

lemma dict_get_dict_pop:
  "dict_get (dict_pop d k) k' = (if k' = k then None else dict_get d k')"
  by (induction d) (auto simp: dict_get_def dict_pop_def)

lemma dict_set_fresh: "k \<notin> fst ` set d \<Longrightarrow> dict_set d k v = d @ [(k, v)]"
  by (induction d) auto

lemma dict_pop_fresh: "k \<notin> fst ` set d \<Longrightarrow> dict_pop d k = d"
  by (induction d) (auto simp: dict_pop_def)

section \<open>The order builder\<close>

text \<open>
  Claim C4. An order request whose items list is empty fails with HTTP 400 and detail
  "No items in order", and no order is persisted: the store is left as it was. The check
  comes before any per-item validation: the result is the same for every runtime, which
  only the validation consults.
\<close>

theorem create_order_no_items:
  "items payload = [] \<Longrightarrow>
     create_order rt (Some s) payload =
       (Inl (HTTPException 400 ''No items in order''), Some s)"
  by (simp add: create_order_def)

theorem create_order_no_items_witness:
  "items (order_request []) = [] \<and>
   create_order plain_runtime (Some empty_store) (order_request []) =
     (Inl (HTTPException 400 ''No items in order''), Some empty_store)"
  using create_order_no_items [of "order_request []" plain_runtime empty_store]
  by (simp add: order_request_def)

text \<open>
  Claim C3. An order request with a non-empty items list in which the validation rejects
  every item fails with HTTP 400 and detail "Invalid items", which is not the error of
  the empty list, and no order is persisted: the store is left as it was.
\<close>

theorem create_order_invalid_items:
  assumes "items payload \<noteq> []"
    and "\<forall>item\<in>set (items payload). \<not> accepted rt item"
  shows "create_order rt (Some s) payload =
           (Inl (HTTPException 400 ''Invalid items''), Some s)
         \<and> HTTPException 400 ''Invalid items'' \<noteq> HTTPException 400 ''No items in order''"
proof -
  from assms(2) have "List.map_filter (stored_item rt) (items payload) = []"
    by (intro map_filter_all_None) (simp add: accepted_def)
  with assms(1) show ?thesis
    by (simp add: create_order_def build_items_pair)
qed

theorem create_order_invalid_items_witness:
  "items (order_request [[(''quantity'', PyInt (- 1)), (''price'', PyInt 5)]]) \<noteq> []
   \<and> \<not> accepted plain_runtime [(''quantity'', PyInt (- 1)), (''price'', PyInt 5)]
   \<and> create_order plain_runtime (Some empty_store)
       (order_request [[(''quantity'', PyInt (- 1)), (''price'', PyInt 5)]]) =
     (Inl (HTTPException 400 ''Invalid items''), Some empty_store)"
  using create_order_invalid_items
    [of "order_request [[(''quantity'', PyInt (- 1)), (''price'', PyInt 5)]]"
      plain_runtime empty_store]
  by (simp add: order_request_def accepted_def stored_item_def line_item_def dict_get_or_def
      dict_get_def py_or_def float_eval)

text \<open>
  Claim C8. Whenever create_order returns an error (HTTP 500 for a missing store, either
  HTTP 400, or an exception of the insertion), it writes no order document: the store
  after the request is the store before it.
\<close>

theorem create_order_error_keeps_store:
  "fst (create_order rt db payload) = Inl e \<Longrightarrow> snd (create_order rt db payload) = db"
  by (auto simp: create_order_def create_document_def Let_def
      split: option.splits if_splits prod.splits sum.splits)

theorem create_order_error_keeps_store_witness:
  "fst (create_order plain_runtime None (order_request [])) =
     Inl (HTTPException 500 ''Database not configured'')
   \<and> snd (create_order plain_runtime None (order_request [])) = None"
  using create_order_error_keeps_store
    [of plain_runtime None "order_request []" "HTTPException 500 ''Database not configured''"]
  by (simp add: create_order_def)



lemma refused_product_id:
  assumes "0 < int_max_str_digits rt" and "10 ^ int_max_str_digits rt \<le> \<bar>n\<bar>"
  shows "well_formed rt [(''product_id'', PyInt n), (''quantity'', PyInt 1), (''price'', PyInt 1)]
         \<and> create_order rt (Some s)
             (order_request
               [[(''product_id'', PyInt n), (''quantity'', PyInt 1), (''price'', PyInt 1)]]) =
           (Inl (HTTPException 400 ''Invalid items''), Some s)"
proof -
  from assms(2) have "n \<noteq> 0"
    using ten_power_positive [of "int_max_str_digits rt"] by auto
  with assms show ?thesis
    by (simp add: well_formed_def quantity_of_def price_of_def order_eval float_eval)
qed

text \<open>
  Claim C1, as the spec states it: every order request whose items list is non-empty
  and in which every item has an integer quantity above zero and a parsable price of
  zero or more succeeds. It fails for a quantity too large for a float: the quantity
  \<open>2^1024\<close> with the price 1 is such an item, \<^verbatim>\<open>qty * price\<close> raises
  \<^verbatim>\<open>OverflowError\<close> inside the \<^verbatim>\<open>try\<close> block, the item is dropped, and the
  request ends with HTTP 400 "Invalid items". It fails as well for a product_id that
  \<^verbatim>\<open>str\<close> refuses: for the int \<open>10^4300\<close>, of 4301 digits, \<^verbatim>\<open>str\<close> raises
  \<^verbatim>\<open>ValueError\<close> inside the \<^verbatim>\<open>try\<close> block, with the same end.
\<close>

theorem create_order_subtotal_counterexample:
  "items (order_request [[(''quantity'', PyInt (2 ^ 1024)), (''price'', PyInt 1)]]) \<noteq> []
   \<and> well_formed plain_runtime [(''quantity'', PyInt (2 ^ 1024)), (''price'', PyInt 1)]
   \<and> create_order plain_runtime (Some empty_store)
       (order_request [[(''quantity'', PyInt (2 ^ 1024)), (''price'', PyInt 1)]]) =
     (Inl (HTTPException 400 ''Invalid items''), Some empty_store)
   \<and> well_formed plain_runtime
       [(''product_id'', PyInt (10 ^ 4300)), (''quantity'', PyInt 1), (''price'', PyInt 1)]
   \<and> create_order plain_runtime (Some empty_store)
       (order_request
         [[(''product_id'', PyInt (10 ^ 4300)), (''quantity'', PyInt 1), (''price'', PyInt 1)]]) =
     (Inl (HTTPException 400 ''Invalid items''), Some empty_store)"
proof -
  have quantity:
    "items (order_request [[(''quantity'', PyInt (2 ^ 1024)), (''price'', PyInt 1)]]) \<noteq> []
     \<and> well_formed plain_runtime [(''quantity'', PyInt (2 ^ 1024)), (''price'', PyInt 1)]
     \<and> create_order plain_runtime (Some empty_store)
         (order_request [[(''quantity'', PyInt (2 ^ 1024)), (''price'', PyInt 1)]]) =
       (Inl (HTTPException 400 ''Invalid items''), Some empty_store)"
    by (simp add: well_formed_def quantity_of_def price_of_def order_eval float_eval)
  have limit: "int_max_str_digits plain_runtime = 4300"
    by (simp add: plain_runtime_def)
  then have positive: "0 < int_max_str_digits plain_runtime"
    by simp
  have "(10::int) ^ 4300 \<le> \<bar>10 ^ 4300\<bar>"
    by (rule abs_ge_self)
  then have over: "10 ^ int_max_str_digits plain_runtime \<le> \<bar>(10::int) ^ 4300\<bar>"
    unfolding limit .
  note product_id = refused_product_id [OF positive over, of empty_store]
  from quantity have q1:
    "items (order_request [[(''quantity'', PyInt (2 ^ 1024)), (''price'', PyInt 1)]]) \<noteq> []"
    by (rule conjunct1)
  from quantity have q2:
    "well_formed plain_runtime [(''quantity'', PyInt (2 ^ 1024)), (''price'', PyInt 1)]"
    by (rule conjunct2 [THEN conjunct1])
  from quantity have q3:
    "create_order plain_runtime (Some empty_store)
       (order_request [[(''quantity'', PyInt (2 ^ 1024)), (''price'', PyInt 1)]]) =
     (Inl (HTTPException 400 ''Invalid items''), Some empty_store)"
    by (rule conjunct2 [THEN conjunct2])
  from product_id have p1:
    "well_formed plain_runtime
       [(''product_id'', PyInt (10 ^ 4300)), (''quantity'', PyInt 1), (''price'', PyInt 1)]"
    by (rule conjunct1)
  from product_id have p2:
    "create_order plain_runtime (Some empty_store)
       (order_request
         [[(''product_id'', PyInt (10 ^ 4300)), (''quantity'', PyInt 1), (''price'', PyInt 1)]]) =
     (Inl (HTTPException 400 ''Invalid items''), Some empty_store)"
    by (rule conjunct2)
  show ?thesis
    by (intro conjI q1 q2 q3 p1 p2)
qed

text \<open>
  Claim C1, amended. For every order request, handled with a configured store that
  accepts the insertion, whose items list is non-empty and in which every item has an
  integer quantity above zero that converts to a float, a parsable price of zero or
  more and a product_id that \<^verbatim>\<open>str\<close> converts to a text, create_order succeeds, and
  the subtotal of the persisted order is \<^verbatim>\<open>round(x, 2)\<close> of the sum \<open>x\<close> of quantity
  times price over the items, the products and the sum computed in floating point, from
  \<open>0.0\<close> and in the order of the items.
\<close>

theorem create_order_subtotal:
  assumes "items payload \<noteq> []"
    and "\<forall>item\<in>set (items payload).
           well_formed rt item \<and> quantity_fits rt item \<and> product_id_fits rt item"
    and "\<forall>d. accepts s COLLECTION_ORDERS d"
  shows "\<exists>order_id s' doc.
           create_order rt (Some s) payload =
             (Inr [(''ok'', PyBool True), (''order_id'', order_id)], Some s')
           \<and> colls s' COLLECTION_ORDERS = colls s COLLECTION_ORDERS @ [doc]
           \<and> dict_get doc ''subtotal'' =
               Some (PyFloat
                 (py_round (float_sum (map (quantity_times_price rt) (items payload))) 2))"
proof -
  from assms(2) have amounts:
    "List.map_filter (item_amount rt) (items payload) =
       map (quantity_times_price rt) (items payload)"
    by (intro map_filter_all_Some) (simp add: well_formed_line_item)
  from assms(1) obtain item rest where split: "items payload = item # rest"
    by (cases "items payload") auto
  with assms(2) have "accepted rt item"
    by (simp add: well_formed_line_item)
  with split have nonempty: "List.map_filter (stored_item rt) (items payload) \<noteq> []"
    by (auto simp: map_filter_Cons accepted_def)
  from assms(1,3) nonempty amounts show ?thesis
    by (simp add: create_order_def build_items_pair create_document_def Let_def
        OrderSchema_def dict_get_dict_set dict_get_def float_sum_def)
qed

theorem create_order_subtotal_witness:
  "float_sum (map (quantity_times_price plain_runtime)
     (items (order_request
        [[(''quantity'', PyInt 3), (''price'', PyFloat (to_double False 1 10))]]))) =
     Finite False 5404319552844596 (- 54)
   \<and> to_double False 3 10 = Finite False 5404319552844595 (- 54)
   \<and> (\<exists>s' doc.
     create_order plain_runtime (Some empty_store)
       (order_request [[(''quantity'', PyInt 3), (''price'', PyFloat (to_double False 1 10))]]) =
       (Inr [(''ok'', PyBool True), (''order_id'', ObjectId 0)], Some s')
     \<and> colls s' COLLECTION_ORDERS = [doc]
     \<and> dict_get doc ''subtotal'' = Some (PyFloat (to_double False 3 10)))"
proof -
  let ?item = "[(''quantity'', PyInt 3), (''price'', PyFloat (to_double False 1 10))]"
  have nonempty: "items (order_request [?item]) \<noteq> []"
    by (simp add: order_request_def)
  have ok: "\<forall>item\<in>set (items (order_request [?item])).
              well_formed plain_runtime item \<and> quantity_fits plain_runtime item
              \<and> product_id_fits plain_runtime item"
    by (simp add: order_request_def well_formed_def quantity_fits_def product_id_fits_def
        quantity_of_def price_of_def product_id_of_def dict_get_or_def dict_get_def py_or_def
        float_eval)
  have store: "\<forall>d. accepts empty_store COLLECTION_ORDERS d"
    by (simp add: empty_store_def)
  have sum: "float_sum (map (quantity_times_price plain_runtime)
                  (items (order_request [?item]))) = Finite False 5404319552844596 (- 54)"
    by (simp add: order_request_def float_sum_def quantity_times_price_def quantity_of_def
        price_of_def dict_get_or_def dict_get_def float_eval)
  have rounded: "to_double False 3 10 = Finite False 5404319552844595 (- 54)"
    by (simp add: float_eval)
  have total: "py_round (Finite False 5404319552844596 (- 54)) 2 = to_double False 3 10"
    by (simp add: float_eval)
  have run: "fst (create_order plain_runtime (Some empty_store) (order_request [?item])) =
               Inr [(''ok'', PyBool True), (''order_id'', ObjectId 0)]"
    by (simp add: order_eval float_eval)
  from create_order_subtotal [OF nonempty ok store] sum total run
  have "\<exists>s' doc.
     create_order plain_runtime (Some empty_store) (order_request [?item]) =
       (Inr [(''ok'', PyBool True), (''order_id'', ObjectId 0)], Some s')
     \<and> colls s' COLLECTION_ORDERS = [doc]
     \<and> dict_get doc ''subtotal'' = Some (PyFloat (to_double False 3 10))"
    by (auto simp: empty_store_def)
  with sum rounded show ?thesis
    by (intro conjI)
qed

text \<open>
  Claim C2, as the spec states it: a raw item with an absent quantity is excluded from
  the persisted order. It is not: the loop reads an absent quantity as 1, so an item
  with a price and no quantity is persisted with quantity 1 and adds its price to the
  subtotal.
\<close>

theorem rejected_item_counterexample:
  "dict_get [(''price'', PyInt 5)] ''quantity'' = None
   \<and> stored_item plain_runtime [(''price'', PyInt 5)] =
       Some [(''product_id'', PyStr []), (''quantity'', PyInt 1),
             (''price'', PyFloat (to_double False 5 1)), (''title'', PyStr ''Item'')]
   \<and> item_amount plain_runtime [(''price'', PyInt 5)] = Some (to_double False 5 1)
   \<and> fst (create_order plain_runtime (Some empty_store) (order_request [[(''price'', PyInt 5)]])) =
       Inr [(''ok'', PyBool True), (''order_id'', ObjectId 0)]"
  by (simp add: stored_item_def item_amount_def order_eval float_eval)

text \<open>
  Claim C2, amended. A raw item whose price is absent, does not parse or is negative,
  or whose quantity is present and does not parse, is zero or is negative, is excluded
  from the persisted order's items and adds nothing to the subtotal, and its rejection
  raises no error by itself: the loop gives the same items and subtotal as without it,
  and where other items remain the whole request gives the same result as without it.
\<close>

theorem rejected_item_dropped:
  assumes "malformed rt item"
  shows "stored_item rt item = None
         \<and> build_items rt (xs @ item # ys) acc = build_items rt (xs @ ys) acc
         \<and> (xs @ ys \<noteq> [] \<longrightarrow>
              create_order rt db (payload\<lparr>items := xs @ item # ys\<rparr>) =
              create_order rt db (payload\<lparr>items := xs @ ys\<rparr>))"
proof -
  from assms have none: "stored_item rt item = None"
    by (rule malformed_line_item)
  have loop: "build_items rt (xs @ item # ys) acc = build_items rt (xs @ ys) acc" for acc
    using rejected_step [OF none] by (simp add: build_items_append)
  from none loop show ?thesis
    by (cases db) (simp_all add: create_order_def case_prod_beta)
qed

theorem rejected_item_dropped_witness:
  "malformed plain_runtime [(''quantity'', PyStr ''abc''), (''price'', PyInt 5)]
   \<and> stored_item plain_runtime [(''quantity'', PyStr ''abc''), (''price'', PyInt 5)] = None
   \<and> create_order plain_runtime (Some empty_store)
       (order_request [[(''quantity'', PyStr ''abc''), (''price'', PyInt 5)],
                       [(''quantity'', PyInt 2), (''price'', PyInt 3)]]) =
     create_order plain_runtime (Some empty_store)
       (order_request [[(''quantity'', PyInt 2), (''price'', PyInt 3)]])"
proof -
  have bad: "malformed plain_runtime [(''quantity'', PyStr ''abc''), (''price'', PyInt 5)]"
    by (simp add: malformed_def dict_get_def plain_runtime_def numeral_value_def float_eval)
  from rejected_item_dropped [OF bad, of "[]" "[[(''quantity'', PyInt 2), (''price'', PyInt 3)]]"
      "([], float_zero)" "Some empty_store" "order_request []"] bad
  show ?thesis
    by (simp add: order_request_def)
qed

text \<open>
  Claim C7, as the spec states it: the stored product_id is the item's product_id
  coerced to a string, or the empty string if product_id is absent. It is not for a
  product_id that Python counts as false: for the product_id 0 the stored text is
  empty, while \<^verbatim>\<open>str(0)\<close> is "0".
\<close>

theorem stored_defaults_counterexample:
  "dict_get [(''product_id'', PyInt 0), (''price'', PyInt 5)] ''product_id'' = Some (PyInt 0)
   \<and> py_str plain_runtime (PyInt 0) = Inr ''0''
   \<and> map_option (\<lambda>doc. dict_get doc ''product_id'')
       (stored_item plain_runtime [(''product_id'', PyInt 0), (''price'', PyInt 5)]) =
     Some (Some (PyStr []))"
  by (simp add: stored_item_def line_item_def dict_get_or_def dict_get_def py_or_def
      int_times_float_def show_int_def show_nat.simps ten_power_positive float_eval)

text \<open>
  Claim C7, amended. For every raw item accepted into an order: if its quantity field is
  absent the stored quantity is 1; if its title field is absent or the empty string the
  stored title is "Item"; and the stored product_id is the empty string if the item's
  product_id is absent or counts as false in Python (null, false, zero, an empty
  string, list or object), and the item's product_id coerced to a string otherwise
  (the coercion has raised nothing, or the item would not have been accepted).
\<close>

theorem stored_defaults:
  assumes "stored_item rt item = Some doc"
  shows "(dict_get item ''quantity'' = None \<longrightarrow> dict_get doc ''quantity'' = Some (PyInt 1))
         \<and> (dict_get item ''title'' = None \<or> dict_get item ''title'' = Some (PyStr [])
              \<longrightarrow> dict_get doc ''title'' = Some (PyStr ''Item''))
         \<and> (\<exists>t. dict_get doc ''product_id'' = Some (PyStr t)
                 \<and> (case dict_get item ''product_id'' of
                        None \<Rightarrow> Inr []
                      | Some v \<Rightarrow> if truthy v then py_str rt v else Inr []) = Inr t)"
  using assms
  by (auto simp: stored_item_def line_item_def dict_get_or_def py_or_def Let_def
      dict_get_def [of "_ # _"]
      split: sum.splits option.splits if_splits prod.splits)

theorem stored_defaults_witness:
  "stored_item plain_runtime [(''product_id'', PyStr ''p1''), (''price'', PyInt 5)] =
     Some [(''product_id'', PyStr ''p1''), (''quantity'', PyInt 1),
           (''price'', PyFloat (to_double False 5 1)), (''title'', PyStr ''Item'')]
   \<and> dict_get [(''product_id'', PyStr ''p1''), (''quantity'', PyInt 1),
           (''price'', PyFloat (to_double False 5 1)), (''title'', PyStr ''Item'')] ''product_id'' =
       Some (PyStr ''p1'')"
proof -
  have run: "stored_item plain_runtime [(''product_id'', PyStr ''p1''), (''price'', PyInt 5)] =
     Some [(''product_id'', PyStr ''p1''), (''quantity'', PyInt 1),
           (''price'', PyFloat (to_double False 5 1)), (''title'', PyStr ''Item'')]"
    by (simp add: stored_item_def line_item_def dict_get_or_def dict_get_def py_or_def
        int_times_float_def float_eval)
  from stored_defaults [OF run] run show ?thesis
    by (simp add: dict_get_def)
qed



section \<open>The product catalog reader\<close>

lemma create_document_accepts:
  "create_document s c d = Inr (i, s') \<Longrightarrow> accepts s' = accepts s"
  by (auto simp: create_document_def Let_def split: if_splits)

lemma seed_products_accepts: "accepts (seed_products s ps) = accepts s"
  by (induction ps arbitrary: s)
     (auto simp: create_document_def Let_def split: sum.splits prod.splits if_splits)

lemma seed_products_other:
  "c \<noteq> COLLECTION_PRODUCTS \<Longrightarrow> colls (seed_products s ps) c = colls s c"
  by (induction ps arbitrary: s)
     (auto simp: create_document_def Let_def split: sum.splits prod.splits if_splits)

lemma without_store_fields_stamped:
  assumes "''_id'' \<notin> fst ` set d" and "''created_at'' \<notin> fst ` set d"
  shows "without_store_fields (dict_set (dict_set d ''created_at'' t) ''_id'' i) = d"
proof -
  from assms have "dict_set (dict_set d ''created_at'' t) ''_id'' i =
      d @ [(''created_at'', t), (''_id'', i)]"
    by (simp add: dict_set_fresh)
  moreover from assms have "filter (\<lambda>kv. fst kv \<noteq> ''_id'') d = d"
    "filter (\<lambda>kv. fst kv \<noteq> ''created_at'') d = d"
    using dict_pop_fresh [of "''_id''" d] dict_pop_fresh [of "''created_at''" d]
    by (simp_all add: dict_pop_def)
  ultimately show ?thesis
    by (simp add: without_store_fields_def dict_pop_def)
qed

lemma seed_products_stored:
  assumes "\<forall>p\<in>set ps. ''_id'' \<notin> fst ` set p \<and> ''created_at'' \<notin> fst ` set p"
  shows "map without_store_fields (colls (seed_products s ps) COLLECTION_PRODUCTS) =
           map without_store_fields (colls s COLLECTION_PRODUCTS)
           @ filter (accepts s COLLECTION_PRODUCTS) ps"
  using assms
proof (induction ps arbitrary: s)
  case Nil
  show ?case by simp
next
  case (Cons p ps)
  then have keys: "''_id'' \<notin> fst ` set p" "''created_at'' \<notin> fst ` set p"
    and rest: "\<forall>p\<in>set ps. ''_id'' \<notin> fst ` set p \<and> ''created_at'' \<notin> fst ` set p"
    by simp_all
  show ?case
  proof (cases "accepts s COLLECTION_PRODUCTS p")
    case False
    with Cons.IH [OF rest, of s] show ?thesis
      by (simp add: create_document_def)
  next
    case True
    let ?doc = "dict_set (dict_set p ''created_at'' (DateTime (now s))) ''_id''
                  (ObjectId (next_id s))"
    let ?s = "s\<lparr>colls := (colls s)(COLLECTION_PRODUCTS := colls s COLLECTION_PRODUCTS @ [?doc]),
                next_id := Suc (next_id s)\<rparr>"
    from True have step: "seed_products s (p # ps) = seed_products ?s ps"
      by (simp add: create_document_def Let_def)
    from keys have "without_store_fields ?doc = p"
      by (rule without_store_fields_stamped)
    with Cons.IH [OF rest, of ?s] True step show ?thesis
      by simp
  qed
qed

lemma stamped_insert:
  assumes "dict_get p ''updated_at'' = None"
  shows "stamped (dict_set (dict_set p ''created_at'' (DateTime t)) ''_id'' (ObjectId n))"
  using assms by (simp add: stamped_def dict_get_dict_set)

lemma seed_products_stamped:
  assumes "\<forall>d\<in>set (colls s COLLECTION_PRODUCTS). stamped d"
    and "\<forall>p\<in>set ps. dict_get p ''updated_at'' = None"
  shows "\<forall>d\<in>set (colls (seed_products s ps) COLLECTION_PRODUCTS). stamped d"
  using assms
proof (induction ps arbitrary: s)
  case Nil
  then show ?case by simp
next
  case (Cons p ps)
  from Cons.prems(2) have p: "dict_get p ''updated_at'' = None"
    and rest: "\<forall>p\<in>set ps. dict_get p ''updated_at'' = None"
    by simp_all
  show ?case
  proof (cases "accepts s COLLECTION_PRODUCTS p")
    case False
    with Cons.IH [OF Cons.prems(1) rest] show ?thesis
      by (simp add: create_document_def)
  next
    case True
    let ?doc = "dict_set (dict_set p ''created_at'' (DateTime (now s))) ''_id''
                  (ObjectId (next_id s))"
    let ?s = "s\<lparr>colls := (colls s)(COLLECTION_PRODUCTS := colls s COLLECTION_PRODUCTS @ [?doc]),
                next_id := Suc (next_id s)\<rparr>"
    from True have step: "seed_products s (p # ps) = seed_products ?s ps"
      by (simp add: create_document_def Let_def)
    from p have "stamped ?doc"
      by (rule stamped_insert)
    with Cons.prems(1) have "\<forall>d\<in>set (colls ?s COLLECTION_PRODUCTS). stamped d"
      by simp
    from Cons.IH [OF this rest] step show ?thesis
      by simp
  qed
qed

lemma public_product_stamped:
  assumes "stamped d"
  shows "\<exists>q. public_product rt d = Inr q \<and> dict_get q ''_id'' = None
              \<and> (\<exists>t. dict_get q ''id'' = Some (PyStr t))"
proof -
  from assms obtain n t where id: "dict_get d ''_id'' = Some (ObjectId n)"
    and created: "dict_get d ''created_at'' = Some (DateTime t)"
    and updated: "dict_get d ''updated_at'' = None"
    by (auto simp: stamped_def split: option.splits pyval.splits)
  then show ?thesis
    by (simp add: public_product_def str_field_def dict_get_dict_set dict_get_dict_pop)
qed

lemma public_products_map:
  "public_products rt ps = Inr qs \<Longrightarrow> map (public_product rt) ps = map Inr qs"
  by (induction ps arbitrary: qs) (auto split: sum.splits)

lemma public_products_all:
  "(\<forall>p\<in>set ps. \<exists>q. public_product rt p = Inr q) \<Longrightarrow> \<exists>qs. public_products rt ps = Inr qs"
  by (induction ps) auto

lemma default_products_keys:
  "\<forall>p\<in>set DEFAULT_PRODUCTS. ''_id'' \<notin> fst ` set p \<and> ''created_at'' \<notin> fst ` set p"
  by (simp add: DEFAULT_PRODUCTS_def)

lemma default_products_updated:
  "\<forall>p\<in>set DEFAULT_PRODUCTS. dict_get p ''updated_at'' = None"
  by (simp add: DEFAULT_PRODUCTS_def dict_get_def)

lemma default_products_skus:
  "map sku_of DEFAULT_PRODUCTS =
     [Some (PyStr ''RANK_VIP''), Some (PyStr ''RANK_MVP''), Some (PyStr ''RANK_LEGEND''),
      Some (PyStr ''KEYS_GALAXY_10'')]"
  by (simp add: DEFAULT_PRODUCTS_def sku_of_def dict_get_def)

lemma sku_of_without_store_fields: "sku_of (without_store_fields d) = sku_of d"
  by (simp add: sku_of_def without_store_fields_def dict_get_dict_pop)

lemma get_products_store:
  "snd (get_products rt (Some s)) =
     Some (if count_documents s COLLECTION_PRODUCTS = 0 then seed_products s DEFAULT_PRODUCTS
           else s)"
  by (simp add: get_products_def Let_def split: sum.splits)

text \<open>
  Claim C6. When get_products runs against a product collection whose document count is
  above zero, it inserts nothing. Whether the conversion of the stored products to their
  public form gives the response or raises, the store is left as it was, so a second
  call after seeding does not duplicate the seeded products.
\<close>

theorem get_products_no_reseed:
  assumes "0 < count_documents s COLLECTION_PRODUCTS"
  shows "get_products rt (Some s) =
           (case public_products rt (colls s COLLECTION_PRODUCTS) of
              Inl e \<Rightarrow> Inl (Uncaught e)
            | Inr ps \<Rightarrow> Inr [(''items'', PyList (map PyDict ps))],
            Some s)"
  using assms by (simp add: get_products_def get_documents_def Let_def split: sum.splits)

theorem get_products_no_reseed_witness:
  "snd (get_products plain_runtime (Some empty_store)) =
     Some (seed_products empty_store DEFAULT_PRODUCTS)
   \<and> count_documents (seed_products empty_store DEFAULT_PRODUCTS) COLLECTION_PRODUCTS = 4
   \<and> snd (get_products plain_runtime (Some (seed_products empty_store DEFAULT_PRODUCTS))) =
       Some (seed_products empty_store DEFAULT_PRODUCTS)"
proof -
  have first: "snd (get_products plain_runtime (Some empty_store)) =
                 Some (seed_products empty_store DEFAULT_PRODUCTS)"
    by (simp add: get_products_store count_documents_def empty_store_def)
  have "map without_store_fields
          (colls (seed_products empty_store DEFAULT_PRODUCTS) COLLECTION_PRODUCTS) =
        map without_store_fields (colls empty_store COLLECTION_PRODUCTS)
        @ filter (accepts empty_store COLLECTION_PRODUCTS) DEFAULT_PRODUCTS"
    using default_products_keys by (rule seed_products_stored)
  then have "length (map without_store_fields
          (colls (seed_products empty_store DEFAULT_PRODUCTS) COLLECTION_PRODUCTS)) =
        length DEFAULT_PRODUCTS"
    by (simp add: empty_store_def)
  then have four:
    "count_documents (seed_products empty_store DEFAULT_PRODUCTS) COLLECTION_PRODUCTS = 4"
    by (simp add: count_documents_def DEFAULT_PRODUCTS_def)
  then have "0 < count_documents (seed_products empty_store DEFAULT_PRODUCTS) COLLECTION_PRODUCTS"
    by simp
  from get_products_no_reseed [OF this, of plain_runtime]
  have "snd (get_products plain_runtime (Some (seed_products empty_store DEFAULT_PRODUCTS))) =
          Some (seed_products empty_store DEFAULT_PRODUCTS)"
    by (simp only: snd_conv)
  with first four show ?thesis
    by (intro conjI)
qed

lemma get_products_fresh:
  assumes "count_documents s COLLECTION_PRODUCTS = 0"
  shows "\<exists>ps. get_products rt (Some s) =
                (Inr [(''items'', PyList (map PyDict ps))],
                 Some (seed_products s DEFAULT_PRODUCTS))
              \<and> map (public_product rt)
                   (colls (seed_products s DEFAULT_PRODUCTS) COLLECTION_PRODUCTS) = map Inr ps
              \<and> (\<forall>p\<in>set ps. dict_get p ''_id'' = None
                                \<and> (\<exists>t. dict_get p ''id'' = Some (PyStr t)))"
proof -
  let ?s = "seed_products s DEFAULT_PRODUCTS"
  from assms have empty: "colls s COLLECTION_PRODUCTS = []"
    by (simp add: count_documents_def)
  have all_stamped: "\<forall>d\<in>set (colls ?s COLLECTION_PRODUCTS). stamped d"
    by (rule seed_products_stamped) (simp_all add: empty default_products_updated)
  then have "\<forall>p\<in>set (colls ?s COLLECTION_PRODUCTS). \<exists>q. public_product rt p = Inr q"
    using public_product_stamped [of _ rt] by blast
  then obtain ps where ps: "public_products rt (colls ?s COLLECTION_PRODUCTS) = Inr ps"
    using public_products_all by blast
  then have same: "map (public_product rt) (colls ?s COLLECTION_PRODUCTS) = map Inr ps"
    by (rule public_products_map)
  have run: "get_products rt (Some s) = (Inr [(''items'', PyList (map PyDict ps))], Some ?s)"
    unfolding get_products_def get_documents_def Let_def
    by (simp only: assms ps option.case sum.case if_True refl)
  have ids: "\<forall>q\<in>set ps. dict_get q ''_id'' = None
                          \<and> (\<exists>t. dict_get q ''id'' = Some (PyStr t))"
  proof
    fix q
    assume "q \<in> set ps"
    then have "Inr q \<in> set (map (public_product rt) (colls ?s COLLECTION_PRODUCTS))"
      by (simp only: same) simp
    then obtain p where p: "p \<in> set (colls ?s COLLECTION_PRODUCTS)"
      and q: "public_product rt p = Inr q"
      by auto
    from all_stamped p have "stamped p"
      by (rule bspec)
    from public_product_stamped [OF this, of rt] q
    show "dict_get q ''_id'' = None \<and> (\<exists>t. dict_get q ''id'' = Some (PyStr t))"
      by simp
  qed
  from run same ids show ?thesis
    by (intro exI [of _ ps] conjI)
qed

text \<open>
  Claim C5, as the spec states it: against a product collection whose document count is
  zero, get_products inserts exactly the 4 default products. It does not when an
  insertion fails: the failure is swallowed and the call goes on. In a store that
  refuses the product with sku \<open>RANK_MVP\<close> the call succeeds and leaves 3 products.
\<close>

theorem get_products_seeds_counterexample:
  "count_documents faulty_store COLLECTION_PRODUCTS = 0
   \<and> \<not> isl (fst (get_products plain_runtime (Some faulty_store)))
   \<and> map_option (\<lambda>s'. map sku_of (colls s' COLLECTION_PRODUCTS))
       (snd (get_products plain_runtime (Some faulty_store))) =
     Some [Some (PyStr ''RANK_VIP''), Some (PyStr ''RANK_LEGEND''),
           Some (PyStr ''KEYS_GALAXY_10'')]"
proof -
  have zero: "count_documents faulty_store COLLECTION_PRODUCTS = 0"
    by (simp add: faulty_store_def count_documents_def)
  from get_products_fresh [OF zero, of plain_runtime]
  have ok: "\<not> isl (fst (get_products plain_runtime (Some faulty_store)))"
    by auto
  have "map sku_of (colls (seed_products faulty_store DEFAULT_PRODUCTS) COLLECTION_PRODUCTS) =
          [Some (PyStr ''RANK_VIP''), Some (PyStr ''RANK_LEGEND''),
           Some (PyStr ''KEYS_GALAXY_10'')]"
    by (simp add: faulty_store_def COLLECTION_PRODUCTS_def DEFAULT_PRODUCTS_def
        create_document_def dict_get_def sku_of_def Let_def)
  with zero have skus: "map_option (\<lambda>s'. map sku_of (colls s' COLLECTION_PRODUCTS))
       (snd (get_products plain_runtime (Some faulty_store))) =
     Some [Some (PyStr ''RANK_VIP''), Some (PyStr ''RANK_LEGEND''),
           Some (PyStr ''KEYS_GALAXY_10'')]"
    by (simp add: get_products_store)
  from zero ok skus show ?thesis
    by (intro conjI)
qed

text \<open>
  Claim C5, amended. When get_products runs against a product collection whose document
  count is zero, it inserts, in their order, those of the 4 default products whose
  insertion succeeds, each as it is but for the fields the store adds, and no other
  document; these are all 4, with the skus RANK_VIP, RANK_MVP, RANK_LEGEND and
  KEYS_GALAXY_10, when no insertion fails. It then succeeds and returns all products,
  each in its public form, with the internal _id field removed and replaced by a
  string-valued public id field.
\<close>

theorem get_products_seeds:
  assumes "count_documents s COLLECTION_PRODUCTS = 0"
  shows "\<exists>s' ps. get_products rt (Some s) =
                   (Inr [(''items'', PyList (map PyDict ps))], Some s')
           \<and> map (public_product rt) (colls s' COLLECTION_PRODUCTS) = map Inr ps
           \<and> map without_store_fields (colls s' COLLECTION_PRODUCTS) =
               filter (accepts s COLLECTION_PRODUCTS) DEFAULT_PRODUCTS
           \<and> ((\<forall>p\<in>set DEFAULT_PRODUCTS. accepts s COLLECTION_PRODUCTS p) \<longrightarrow>
                map sku_of (colls s' COLLECTION_PRODUCTS) =
                  [Some (PyStr ''RANK_VIP''), Some (PyStr ''RANK_MVP''),
                   Some (PyStr ''RANK_LEGEND''), Some (PyStr ''KEYS_GALAXY_10'')])
           \<and> (\<forall>c. c \<noteq> COLLECTION_PRODUCTS \<longrightarrow> colls s' c = colls s c)
           \<and> (\<forall>p\<in>set ps. dict_get p ''_id'' = None
                             \<and> (\<exists>t. dict_get p ''id'' = Some (PyStr t)))"
proof -
  let ?s = "seed_products s DEFAULT_PRODUCTS"
  from assms have empty: "colls s COLLECTION_PRODUCTS = []"
    by (simp add: count_documents_def)
  from get_products_fresh [OF assms, of rt] obtain ps where
    run: "get_products rt (Some s) = (Inr [(''items'', PyList (map PyDict ps))], Some ?s)"
    and same: "map (public_product rt) (colls ?s COLLECTION_PRODUCTS) = map Inr ps"
    and ids: "\<forall>p\<in>set ps. dict_get p ''_id'' = None
                            \<and> (\<exists>t. dict_get p ''id'' = Some (PyStr t))"
    by (elim exE conjE) (rule that)
  have stored: "map without_store_fields (colls ?s COLLECTION_PRODUCTS) =
                  filter (accepts s COLLECTION_PRODUCTS) DEFAULT_PRODUCTS"
    using seed_products_stored [OF default_products_keys, of s] empty by simp
  have skus: "map sku_of (colls ?s COLLECTION_PRODUCTS) =
                [Some (PyStr ''RANK_VIP''), Some (PyStr ''RANK_MVP''),
                 Some (PyStr ''RANK_LEGEND''), Some (PyStr ''KEYS_GALAXY_10'')]"
    if all: "\<forall>p\<in>set DEFAULT_PRODUCTS. accepts s COLLECTION_PRODUCTS p"
  proof -
    from all have "filter (accepts s COLLECTION_PRODUCTS) DEFAULT_PRODUCTS = DEFAULT_PRODUCTS"
      by (rule filter_True)
    with stored have "map without_store_fields (colls ?s COLLECTION_PRODUCTS) = DEFAULT_PRODUCTS"
      by (simp only:)
    then have "map sku_of (map without_store_fields (colls ?s COLLECTION_PRODUCTS)) =
                 map sku_of DEFAULT_PRODUCTS"
      by (simp only:)
    then have "map sku_of (colls ?s COLLECTION_PRODUCTS) = map sku_of DEFAULT_PRODUCTS"
      by (simp only: map_map comp_def sku_of_without_store_fields)
    then show ?thesis
      by (simp only: default_products_skus)
  qed
  have other: "\<forall>c. c \<noteq> COLLECTION_PRODUCTS \<longrightarrow> colls ?s c = colls s c"
    by (simp add: seed_products_other)
  show ?thesis
  proof (intro exI [of _ ?s] exI [of _ ps] conjI)
    show "get_products rt (Some s) = (Inr [(''items'', PyList (map PyDict ps))], Some ?s)"
      by (rule run)
    show "map (public_product rt) (colls ?s COLLECTION_PRODUCTS) = map Inr ps"
      by (rule same)
    show "map without_store_fields (colls ?s COLLECTION_PRODUCTS) =
            filter (accepts s COLLECTION_PRODUCTS) DEFAULT_PRODUCTS"
      by (rule stored)
    show "(\<forall>p\<in>set DEFAULT_PRODUCTS. accepts s COLLECTION_PRODUCTS p) \<longrightarrow>
            map sku_of (colls ?s COLLECTION_PRODUCTS) =
              [Some (PyStr ''RANK_VIP''), Some (PyStr ''RANK_MVP''),
               Some (PyStr ''RANK_LEGEND''), Some (PyStr ''KEYS_GALAXY_10'')]"
      using skus by (rule impI)
    show "\<forall>c. c \<noteq> COLLECTION_PRODUCTS \<longrightarrow> colls ?s c = colls s c"
      by (rule other)
    show "\<forall>p\<in>set ps. dict_get p ''_id'' = None
                       \<and> (\<exists>t. dict_get p ''id'' = Some (PyStr t))"
      by (rule ids)
  qed
qed

theorem get_products_seeds_witness:
  "count_documents empty_store COLLECTION_PRODUCTS = 0
   \<and> (\<exists>s'. snd (get_products plain_runtime (Some empty_store)) = Some s'
         \<and> \<not> isl (fst (get_products plain_runtime (Some empty_store)))
         \<and> map sku_of (colls s' COLLECTION_PRODUCTS) =
             [Some (PyStr ''RANK_VIP''), Some (PyStr ''RANK_MVP''),
              Some (PyStr ''RANK_LEGEND''), Some (PyStr ''KEYS_GALAXY_10'')]
         \<and> map without_store_fields (colls s' COLLECTION_PRODUCTS) = DEFAULT_PRODUCTS)"
proof -
  have zero: "count_documents empty_store COLLECTION_PRODUCTS = 0"
    by (simp add: count_documents_def empty_store_def)
  have all: "\<forall>p\<in>set DEFAULT_PRODUCTS. accepts empty_store COLLECTION_PRODUCTS p"
    by (simp add: empty_store_def)
  then have same: "filter (accepts empty_store COLLECTION_PRODUCTS) DEFAULT_PRODUCTS =
                     DEFAULT_PRODUCTS"
    by (rule filter_True)
  from get_products_seeds [OF zero, of plain_runtime] obtain s' ps where
    run: "get_products plain_runtime (Some empty_store) =
            (Inr [(''items'', PyList (map PyDict ps))], Some s')"
    and stored: "map without_store_fields (colls s' COLLECTION_PRODUCTS) =
                   filter (accepts empty_store COLLECTION_PRODUCTS) DEFAULT_PRODUCTS"
    and skus: "(\<forall>p\<in>set DEFAULT_PRODUCTS. accepts empty_store COLLECTION_PRODUCTS p) \<longrightarrow>
                 map sku_of (colls s' COLLECTION_PRODUCTS) =
                   [Some (PyStr ''RANK_VIP''), Some (PyStr ''RANK_MVP''),
                    Some (PyStr ''RANK_LEGEND''), Some (PyStr ''KEYS_GALAXY_10'')]"
    by (elim exE conjE) (rule that)
  from run have state: "snd (get_products plain_runtime (Some empty_store)) = Some s'"
    by (simp only: snd_conv)
  from run have ok: "\<not> isl (fst (get_products plain_runtime (Some empty_store)))"
    by (simp only: fst_conv sum.disc not_False_eq_True)
  from skus all have listed: "map sku_of (colls s' COLLECTION_PRODUCTS) =
      [Some (PyStr ''RANK_VIP''), Some (PyStr ''RANK_MVP''),
       Some (PyStr ''RANK_LEGEND''), Some (PyStr ''KEYS_GALAXY_10'')]"
    by (rule mp)
  from stored same
  have kept: "map without_store_fields (colls s' COLLECTION_PRODUCTS) = DEFAULT_PRODUCTS"
    by (simp only:)
  show ?thesis
    by (intro conjI exI [of _ s'] zero state ok listed kept)
qed

end
